theory Spec2Isabelle
  imports Complex_Main "HOL-Library.Multiset"
begin

section \<open>Python values, errors and the absent helpers\<close>

text \<open>
  The repository is Python 3 code (\<^verbatim>\<open>print()\<close> is called as a function). An
  exception is a value of \<open>pyerr\<close>; a function that may raise returns
  \<open>pyerr + 'a\<close>, with \<open>Inl\<close> for the exception. Floats are idealised as
  reals: the quotients taken below are quotients of small integers.
\<close>

datatype pyerr =
  TypeError | ZeroDivisionError | IndexError | KeyError | ValueError | NameError
  | Exception string

text \<open>The argument of \<^verbatim>\<open>cast_int\<close>: a cell of a row (a string) or an integer.\<close>

datatype pyval = PStr string | PInt int

text \<open>
  One element of \<^verbatim>\<open>saccade_vect\<close>: timestamp, X, Y, each the result of
  \<^verbatim>\<open>cast_int\<close> (an integer or \<^verbatim>\<open>None\<close>).
\<close>

type_synonym gaze = "int option \<times> int option \<times> int option"

text \<open>
  The module \<^verbatim>\<open>EMDAT_core\<close> and \<^verbatim>\<open>params\<close> are not among the
  source files. What \<^verbatim>\<open>read_saccade_data\<close> uses of them is a parameter of the
  model: \<^verbatim>\<open>EMDAT_core.utils.cast_int\<close> (an integer, or \<^verbatim>\<open>None\<close>),
  \<^verbatim>\<open>EMDAT_core.Recording.get_saccade_distance\<close> (a float, or an exception) and
  the constant \<^verbatim>\<open>params.VALID_SAMPLES_PROP_SACCADE\<close>.
\<close>

record senv =
  cast_int :: "pyval \<Rightarrow> int option"
  get_saccade_distance :: "gaze list \<Rightarrow> pyerr + real"
  VALID_SAMPLES_PROP_SACCADE :: real

section \<open>TobiiV2Recording.read\_saccade\_data\<close>

text \<open>
  A row of the \<^verbatim>\<open>csv.DictReader\<close>, restricted to the eleven columns the
  function reads; the file is taken to have all of them. The columns
  \<^verbatim>\<open>GazePointX (ADCSpx)\<close>, \<^verbatim>\<open>GazePointY (ADCSpx)\<close>,
  \<^verbatim>\<open>FixationPointX (MCSpx)\<close> and \<^verbatim>\<open>FixationPointY (MCSpx)\<close> lose their
  unit suffix in the field names.
\<close>

record srow =
  MediaName :: string
  EyeTrackerTimestamp :: string
  GazeEventType :: string
  SaccadeIndex :: string
  ValidityLeft :: string
  ValidityRight :: string
  GazePointX :: string
  GazePointY :: string
  RecordingTimestamp :: string
  FixationPointX :: string
  FixationPointY :: string

text \<open>
  The dictionary \<^verbatim>\<open>data\<close> handed to the constructor \<^verbatim>\<open>Saccade\<close> (the
  class itself is in \<^verbatim>\<open>EMDAT_core.data_structures\<close>, not among the source
  files): an emitted saccade is modelled by this dictionary.
\<close>

record saccade =
  saccadeindex :: "int option"
  timestamp :: "int option"
  saccadeduration :: "int option"
  saccadestartpointx :: "int option"
  saccadestartpointy :: "int option"
  saccadeendpointx :: "int option"
  saccadeendpointy :: "int option"
  saccadedistance :: real
  saccadespeed :: real
  saccadeacceleration :: int
  saccadequality :: real

text \<open>The local variables of the loop, and the result list.\<close>

record sstate =
  all_saccade :: "saccade list"
  in_saccade :: bool
  in_fixation :: bool
  last_gaze_coord :: gaze
  saccade_vect :: "gaze list"
  saccade_duration :: int
  current_index :: pyval
  nb_invalid_temp :: int
  nb_valid_sample :: int
  nb_sample :: int
  last_valid :: bool

definition init_state :: sstate where
  "init_state =
     \<lparr> all_saccade = [], in_saccade = False, in_fixation = False,
       last_gaze_coord = (Some 0, Some 0, Some 0), saccade_vect = [],
       saccade_duration = 0, current_index = PInt 0,
       nb_invalid_temp = 0, nb_valid_sample = 0, nb_sample = 0,
       last_valid = False \<rparr>"

text \<open>
  \<^verbatim>\<open>cast_int(row["ValidityLeft"]) < 2 or cast_int(row["ValidityRight"]) < 2\<close>:
  comparing \<^verbatim>\<open>None\<close> with 2 raises \<^verbatim>\<open>TypeError\<close>, and \<^verbatim>\<open>or\<close>
  does not evaluate its right operand when the left one is true.
\<close>

definition validity_codes_ok :: "senv \<Rightarrow> srow \<Rightarrow> pyerr + bool" where
  "validity_codes_ok env row =
     (case cast_int env (PStr (ValidityLeft row)) of
        None \<Rightarrow> Inl TypeError
      | Some l \<Rightarrow>
          if l < 2 then Inr True
          else (case cast_int env (PStr (ValidityRight row)) of
                  None \<Rightarrow> Inl TypeError
                | Some r \<Rightarrow> Inr (r < 2)))"

text \<open>
  The condition \<^verbatim>\<open>(... < 2 or ... < 2) and row["GazePointX (ADCSpx)"] and
  row["GazePointY (ADCSpx)"]\<close>; a string is true when it is not empty.
\<close>

definition valid_gaze :: "senv \<Rightarrow> srow \<Rightarrow> pyerr + bool" where
  "valid_gaze env row =
     (case validity_codes_ok env row of
        Inl e \<Rightarrow> Inl e
      | Inr v \<Rightarrow> Inr (v \<and> GazePointX row \<noteq> [] \<and> GazePointY row \<noteq> []))"

definition gaze_sample :: "senv \<Rightarrow> srow \<Rightarrow> gaze" where
  "gaze_sample env row =
     (cast_int env (PStr (RecordingTimestamp row)),
      cast_int env (PStr (GazePointX row)),
      cast_int env (PStr (GazePointY row)))"

definition fixation_sample :: "senv \<Rightarrow> srow \<Rightarrow> gaze" where
  "fixation_sample env row =
     (cast_int env (PStr (RecordingTimestamp row)),
      cast_int env (PStr (FixationPointX row)),
      cast_int env (PStr (FixationPointY row)))"

text \<open>
  Branch \<^verbatim>\<open>if in_fixation:\<close> (lines 153 to 178). A row classified
  \<^verbatim>\<open>Saccade\<close> opens a window seeded with \<^verbatim>\<open>last_gaze_coord\<close>.
\<close>

definition fixation_branch :: "senv \<Rightarrow> sstate \<Rightarrow> srow \<Rightarrow> pyerr + sstate" where
  "fixation_branch env st row =
     (if GazeEventType row = ''Fixation'' then Inr (st\<lparr>nb_invalid_temp := 0\<rparr>)
      else if GazeEventType row = ''Saccade'' then
        (case valid_gaze env row of
           Inl e \<Rightarrow> Inl e
         | Inr v \<Rightarrow>
             let vect = (if v then [last_gaze_coord st, gaze_sample env row]
                         else [last_gaze_coord st]);
                 nv = (if v then 1 else 0) + (if last_valid st then 1 else 0)
             in Inr (st\<lparr>in_fixation := False, in_saccade := True,
                       current_index := PStr (SaccadeIndex row),
                       saccade_vect := vect,
                       nb_valid_sample := nv,
                       nb_sample := 2 + nb_invalid_temp st,
                       nb_invalid_temp := 0\<rparr>))
      else Inr (st\<lparr>nb_invalid_temp := nb_invalid_temp st + 1\<rparr>))"

text \<open>
  Lines 182 to 198: the boundary sample closes the window. The live gaze coordinate is
  appended when it is valid, the tracker's fixation point otherwise when it is there;
  the total counter is incremented in every case.
\<close>

definition close_window :: "senv \<Rightarrow> sstate \<Rightarrow> srow \<Rightarrow> pyerr + sstate" where
  "close_window env st row =
     (case valid_gaze env row of
        Inl e \<Rightarrow> Inl e
      | Inr v \<Rightarrow>
          let st1 = st\<lparr>in_fixation := True, in_saccade := False\<rparr>;
              st2 = (if v then
                       st1\<lparr>saccade_vect := saccade_vect st @ [gaze_sample env row],
                           nb_valid_sample := nb_valid_sample st + 1\<rparr>
                     else if FixationPointX row \<noteq> [] \<and> FixationPointY row \<noteq> [] then
                       st1\<lparr>saccade_vect := saccade_vect st @ [fixation_sample env row],
                           nb_valid_sample := nb_valid_sample st + 1\<rparr>
                     else st1)
          in Inr (st2\<lparr>nb_sample := nb_sample st + 1\<rparr>))"

text \<open>\<^verbatim>\<open>float(nb_valid_sample) / nb_sample\<close> of a state.\<close>

definition window_rate :: "sstate \<Rightarrow> real" where
  "window_rate st = real_of_int (nb_valid_sample st) / real_of_int (nb_sample st)"

text \<open>
  Lines 202 to 221, the body of \<^verbatim>\<open>if rate_valid_sample >= ...\<close>. The
  subtraction needs two integers, \<^verbatim>\<open>saccade_vect[0]\<close> a non-empty list, and the
  division a divisor that is an integer other than zero.
\<close>

definition emit_saccade :: "senv \<Rightarrow> sstate \<Rightarrow> srow \<Rightarrow> real \<Rightarrow> pyerr + sstate" where
  "emit_saccade env st row rate =
     (case saccade_vect st of
        [] \<Rightarrow> Inl IndexError
      | g0 # _ \<Rightarrow>
          (case (cast_int env (PStr (RecordingTimestamp row)), fst g0) of
             (Some t, Some t0) \<Rightarrow>
               (case get_saccade_distance env (saccade_vect st) of
                  Inl e \<Rightarrow> Inl e
                | Inr dst \<Rightarrow>
                    (case cast_int env (PInt (t - t0)) of
                       None \<Rightarrow> Inl TypeError
                     | Some d \<Rightarrow>
                         if d = 0 then Inl ZeroDivisionError
                         else Inr (st\<lparr>
                           saccade_duration := t - t0,
                           all_saccade := all_saccade st @
                             [\<lparr> saccadeindex = cast_int env (current_index st),
                                timestamp = fst g0,
                                saccadeduration = cast_int env (PInt (t - t0)),
                                saccadestartpointx = fst (snd g0),
                                saccadestartpointy = snd (snd g0),
                                saccadeendpointx = fst (snd (last (saccade_vect st))),
                                saccadeendpointy = snd (snd (last (saccade_vect st))),
                                saccadedistance = dst,
                                saccadespeed = dst / real_of_int d,
                                saccadeacceleration = - 1,
                                saccadequality = rate \<rparr>],
                           nb_valid_sample := 0,
                           nb_sample := 0\<rparr>)))
           | _ \<Rightarrow> Inl TypeError))"

text \<open>Branch \<^verbatim>\<open>elif in_saccade:\<close> (lines 180 to 234).\<close>

definition saccade_branch :: "senv \<Rightarrow> sstate \<Rightarrow> srow \<Rightarrow> pyerr + sstate" where
  "saccade_branch env st row =
     (case
        (if GazeEventType row = ''Fixation'' then
           (case close_window env st row of
              Inl e \<Rightarrow> Inl e
            | Inr w \<Rightarrow>
                if nb_sample w = 0 then Inl ZeroDivisionError
                else if VALID_SAMPLES_PROP_SACCADE env \<le> window_rate w
                then emit_saccade env w row (window_rate w)
                else Inr w)
         else if GazeEventType row = ''Saccade'' then
           (case valid_gaze env row of
              Inl e \<Rightarrow> Inl e
            | Inr v \<Rightarrow>
                Inr ((if v then
                        st\<lparr>saccade_vect := saccade_vect st @ [gaze_sample env row],
                           nb_valid_sample := nb_valid_sample st + 1\<rparr>
                      else st)\<lparr>nb_sample := nb_sample st + 1\<rparr>))
         else Inr (st\<lparr>nb_sample := nb_sample st + 1\<rparr>))
      of Inl e \<Rightarrow> Inl e
       | Inr st' \<Rightarrow> Inr (st'\<lparr>nb_invalid_temp := 0\<rparr>))"

text \<open>Lines 240 to 251: the last gaze coordinate seen, and whether it was valid.\<close>

definition update_last_gaze :: "senv \<Rightarrow> sstate \<Rightarrow> srow \<Rightarrow> pyerr + sstate" where
  "update_last_gaze env st row =
     (if GazePointX row \<noteq> [] \<and> GazePointY row \<noteq> [] then
        (case validity_codes_ok env row of
           Inl e \<Rightarrow> Inl e
         | Inr v \<Rightarrow> Inr (st\<lparr>last_gaze_coord := gaze_sample env row, last_valid := v\<rparr>))
      else if GazeEventType row = ''Fixation'' \<and> FixationPointX row \<noteq> []
              \<and> FixationPointY row \<noteq> [] then
        Inr (st\<lparr>last_gaze_coord := fixation_sample env row, last_valid := True\<rparr>)
      else Inr st)"

text \<open>
  Line 149: a row of another media, or with no eye-tracker timestamp, is skipped.
\<close>

definition skipped :: "srow \<Rightarrow> bool" where
  "skipped row \<longleftrightarrow>
     MediaName row \<noteq> ''Screen Recordings (1)'' \<or> EyeTrackerTimestamp row = []"

text \<open>One iteration of \<^verbatim>\<open>for row in reader\<close>.\<close>

definition row_step :: "senv \<Rightarrow> sstate \<Rightarrow> srow \<Rightarrow> pyerr + sstate" where
  "row_step env st row =
     (if skipped row then Inr st
      else
        (case
           (if in_fixation st then fixation_branch env st row
            else if in_saccade st then saccade_branch env st row
            else if GazeEventType row = ''Fixation''
                 then Inr (st\<lparr>in_fixation := True\<rparr>)
                 else Inr st)
         of Inl e \<Rightarrow> Inl e
          | Inr st' \<Rightarrow> update_last_gaze env st' row))"

fun run_rows :: "senv \<Rightarrow> sstate \<Rightarrow> srow list \<Rightarrow> pyerr + sstate" where
  "run_rows env st [] = Inr st"
| "run_rows env st (row # rows) =
     (case row_step env st row of
        Inl e \<Rightarrow> Inl e
      | Inr st' \<Rightarrow> run_rows env st' rows)"

definition read_saccade_data :: "senv \<Rightarrow> srow list \<Rightarrow> pyerr + saccade list" where
  "read_saccade_data env rows =
     (case run_rows env init_state rows of
        Inl e \<Rightarrow> Inl e
      | Inr st \<Rightarrow> Inr (all_saccade st))"

subsection \<open>A reference instance of the absent helpers\<close>

text \<open>
  Modelled from the spec: \<^verbatim>\<open>EMDAT_core.utils.cast_int\<close> is not among the source
  files, and the spec only uses its result as an integer that may be missing. The
  instance below reads an optional minus sign and decimal digits, returns an integer
  unchanged and \<^verbatim>\<open>None\<close> for any other string. It is used for the concrete
  streams only; the general theorems hold for every \<open>cast_int\<close>.
\<close>

definition digit_value :: "char \<Rightarrow> nat option" where
  "digit_value c = map_of (zip ''0123456789'' [0, 1, 2, 3, 4, 5, 6, 7, 8, 9]) c"

fun digits_value :: "nat \<Rightarrow> string \<Rightarrow> nat option" where
  "digits_value acc [] = Some acc"
| "digits_value acc (c # cs) =
     (case digit_value c of
        None \<Rightarrow> None
      | Some d \<Rightarrow> digits_value (10 * acc + d) cs)"

definition cast_int_decimal :: "pyval \<Rightarrow> int option" where
  "cast_int_decimal v =
     (case v of
        PInt i \<Rightarrow> Some i
      | PStr s \<Rightarrow>
          (case s of
             [] \<Rightarrow> None
           | c # cs \<Rightarrow>
               if c = CHR ''-'' then
                 (if cs = [] then None
                  else map_option (\<lambda>n. - int n) (digits_value 0 cs))
               else map_option int (digits_value 0 s)))"

text \<open>
  Modelled from the spec: \<^verbatim>\<open>EMDAT_core.Recording.get_saccade_distance\<close> is not
  among the source files; the spec gives the distance as the sum of the Euclidean
  distances between consecutive points. A missing coordinate cannot be subtracted.
\<close>

fun point_distance :: "gaze \<Rightarrow> gaze \<Rightarrow> pyerr + real" where
  "point_distance (_, Some x0, Some y0) (_, Some x1, Some y1) =
     Inr (sqrt (real_of_int ((x1 - x0)\<^sup>2 + (y1 - y0)\<^sup>2)))"
| "point_distance _ _ = Inl TypeError"

fun euclidean_path_length :: "gaze list \<Rightarrow> pyerr + real" where
  "euclidean_path_length (p # q # ps) =
     (case point_distance p q of
        Inl e \<Rightarrow> Inl e
      | Inr d \<Rightarrow>
          (case euclidean_path_length (q # ps) of
             Inl e \<Rightarrow> Inl e
           | Inr r \<Rightarrow> Inr (d + r)))"
| "euclidean_path_length _ = Inr 0"

definition reference_env :: "real \<Rightarrow> senv" where
  "reference_env threshold =
     \<lparr> cast_int = cast_int_decimal,
       get_saccade_distance = euclidean_path_length,
       VALID_SAMPLES_PROP_SACCADE = threshold \<rparr>"

text \<open>
  A sample of the recorded screen: event type, timestamp, the two validity codes and
  the gaze point; the fixation-point columns are empty.
\<close>

definition screen_sample ::
  "string \<Rightarrow> string \<Rightarrow> string \<Rightarrow> string \<Rightarrow> string \<Rightarrow> string \<Rightarrow> srow" where
  "screen_sample ev ts vl vr x y =
     \<lparr> MediaName = ''Screen Recordings (1)'', EyeTrackerTimestamp = ts,
       GazeEventType = ev, SaccadeIndex = ''1'',
       ValidityLeft = vl, ValidityRight = vr,
       GazePointX = x, GazePointY = y, RecordingTimestamp = ts,
       FixationPointX = [], FixationPointY = [] \<rparr>"

subsection \<open>Invariant of the counters, and the spec's reading of the duration\<close>

text \<open>
  While a window is open the valid counter lies between zero and the total counter,
  which is positive; the run of unclassified samples is never negative.
\<close>

definition counters_ok :: "sstate \<Rightarrow> bool" where
  "counters_ok st \<longleftrightarrow>
     0 \<le> nb_invalid_temp st \<and>
     (in_saccade st \<longrightarrow>
        0 \<le> nb_valid_sample st \<and> nb_valid_sample st \<le> nb_sample st \<and> 0 < nb_sample st)"

definition qualities_ok :: "saccade list \<Rightarrow> bool" where
  "qualities_ok sacs \<longleftrightarrow>
     (\<forall>s \<in> set sacs. 0 \<le> saccadequality s \<and> saccadequality s \<le> 1)"

text \<open>
  The duration as the spec's testable property words it: the timestamp of the last
  sample classified \<^verbatim>\<open>Saccade\<close> minus the timestamp of the first one.
\<close>

definition spec_saccade_duration :: "senv \<Rightarrow> srow list \<Rightarrow> int option" where
  "spec_saccade_duration env rows =
     (case filter (\<lambda>r. GazeEventType r = ''Saccade'') rows of
        [] \<Rightarrow> None
      | r # rs \<Rightarrow>
          (case (cast_int env (PStr (RecordingTimestamp (last (r # rs)))),
                 cast_int env (PStr (RecordingTimestamp r))) of
             (Some b, Some a) \<Rightarrow> Some (b - a)
           | _ \<Rightarrow> None))"

subsection \<open>Concrete streams\<close>

text \<open>Fixation, Fixation, Saccade, Saccade, Fixation; every sample valid.\<close>

definition five_sample_stream :: "srow list" where
  "five_sample_stream =
     [screen_sample ''Fixation'' ''0'' ''0'' ''0'' ''5'' ''5'',
      screen_sample ''Fixation'' ''10'' ''0'' ''0'' ''5'' ''5'',
      screen_sample ''Saccade'' ''20'' ''0'' ''0'' ''8'' ''9'',
      screen_sample ''Saccade'' ''30'' ''0'' ''0'' ''11'' ''13'',
      screen_sample ''Fixation'' ''40'' ''0'' ''0'' ''11'' ''13'']"

text \<open>
  A valid fixation sample, then two saccade samples whose eyes are both invalid
  (code 4); the boundary sample that follows is invalid as well and has no fixation
  point: one valid sample of four.
\<close>

definition low_quality_prefix :: "srow list" where
  "low_quality_prefix =
     [screen_sample ''Fixation'' ''0'' ''0'' ''0'' ''5'' ''5'',
      screen_sample ''Saccade'' ''10'' ''4'' ''4'' [] [],
      screen_sample ''Saccade'' ''20'' ''4'' ''4'' [] []]"

definition low_quality_boundary :: srow where
  "low_quality_boundary = screen_sample ''Fixation'' ''30'' ''4'' ''4'' [] []"

text \<open>Three valid samples that carry the same timestamp.\<close>

definition zero_duration_stream :: "srow list" where
  "zero_duration_stream =
     [screen_sample ''Fixation'' ''10'' ''0'' ''0'' ''5'' ''5'',
      screen_sample ''Saccade'' ''10'' ''0'' ''0'' ''8'' ''9'',
      screen_sample ''Fixation'' ''10'' ''0'' ''0'' ''11'' ''13'']"

section \<open>TobiiV2Recording.read\_all\_data\<close>

text \<open>
  A row of the All-Data file is the dictionary of its cells; reading a column the file
  does not have raises \<^verbatim>\<open>KeyError\<close>.
\<close>

type_synonym arow = "(string \<times> string) list"

definition row_get :: "arow \<Rightarrow> string \<Rightarrow> pyerr + string" where
  "row_get row k = (case map_of row k of None \<Rightarrow> Inl KeyError | Some v \<Rightarrow> Inr v)"

text \<open>
  The helpers of \<^verbatim>\<open>EMDAT_core.utils\<close> that the function calls, and Python's
  \<^verbatim>\<open>float\<close> on a string (\<^verbatim>\<open>None\<close> stands for its \<^verbatim>\<open>ValueError\<close>), are
  parameters; \<open>'n\<close> is the type of what the three helpers return. A cell that
  \<^verbatim>\<open>float\<close> reads as infinite or not a number is outside the model.
\<close>

record 'n aenv =
  py_float :: "string \<Rightarrow> real option"
  get_pupil_size :: "real option \<Rightarrow> real option \<Rightarrow> pyerr + 'n"
  get_pupil_velocity ::
    "real option \<Rightarrow> real option \<Rightarrow> real option \<Rightarrow> real option \<Rightarrow> int \<Rightarrow> pyerr + 'n"
  get_distance :: "real option \<Rightarrow> real option \<Rightarrow> pyerr + 'n"

text \<open>\<^verbatim>\<open>int\<close> of a float truncates towards zero.\<close>

definition py_int_of_float :: "real \<Rightarrow> int" where
  "py_int_of_float x = (if 0 \<le> x then \<lfloor>x\<rfloor> else \<lceil>x\<rceil>)"

text \<open>
  The dictionary \<^verbatim>\<open>data\<close> handed to the constructor \<^verbatim>\<open>Datapoint\<close>. Its key
  \<^verbatim>\<open>timestamp\<close> is the field \<open>dp_timestamp\<close>: the name is taken by the saccade
  dictionary.
\<close>

record 'n datapoint =
  dp_timestamp :: int
  pupilsize :: 'n
  pupilvelocity :: 'n
  distance :: 'n
  is_valid :: bool
  is_valid_blink :: "bool option"
  stimuliname :: "string option"
  fixationindex :: "int option"
  gazepointxleft :: real

text \<open>The variables kept from one row to the next.\<close>

record astate =
  last_pupil_left :: "real option"
  last_pupil_right :: "real option"
  last_time :: int

text \<open>
  Lines 40 to 55. The four pupil and distance values are the constant
  \<^verbatim>\<open>None\<close>, and \<^verbatim>\<open>is_valid\<close> is the constant \<^verbatim>\<open>True\<close>: the expressions
  over the row's columns are commented out in the source.
\<close>

definition all_data_row :: "'n aenv \<Rightarrow> astate \<Rightarrow> arow \<Rightarrow> pyerr + ('n datapoint \<times> astate)" where
  "all_data_row env st row =
     (let pupil_left = None; pupil_right = None;
          distance_left = None; distance_right = None
      in case row_get row ''RecordingTimestamp'' of
           Inl e \<Rightarrow> Inl e
         | Inr cell \<Rightarrow>
        (case py_float env cell of
           None \<Rightarrow> Inl ValueError
         | Some f \<Rightarrow>
        (let ts = py_int_of_float f
         in case get_pupil_size env pupil_left pupil_right of
              Inl e \<Rightarrow> Inl e
            | Inr ps \<Rightarrow>
           (case get_pupil_velocity env (last_pupil_left st) (last_pupil_right st)
                   pupil_left pupil_right (ts - last_time st) of
              Inl e \<Rightarrow> Inl e
            | Inr pv \<Rightarrow>
           (case get_distance env distance_left distance_right of
              Inl e \<Rightarrow> Inl e
            | Inr ds \<Rightarrow>
           (case row_get row ''avg_x'' of
              Inl e \<Rightarrow> Inl e
            | Inr xcell \<Rightarrow>
           (case py_float env xcell of
              None \<Rightarrow> Inl ValueError
            | Some gx \<Rightarrow>
                Inr (\<lparr> dp_timestamp = ts, pupilsize = ps, pupilvelocity = pv,
                        distance = ds, is_valid = True, is_valid_blink = None,
                        stimuliname = None, fixationindex = None,
                        gazepointxleft = gx \<rparr>,
                     \<lparr> last_pupil_left = pupil_left, last_pupil_right = pupil_right,
                        last_time = ts \<rparr>))))))))"

fun all_data_rows :: "'n aenv \<Rightarrow> astate \<Rightarrow> arow list \<Rightarrow> pyerr + 'n datapoint list" where
  "all_data_rows env st [] = Inr []"
| "all_data_rows env st (row # rows) =
     (case all_data_row env st row of
        Inl e \<Rightarrow> Inl e
      | Inr (dp, st') \<Rightarrow>
          (case all_data_rows env st' rows of
             Inl e \<Rightarrow> Inl e
           | Inr dps \<Rightarrow> Inr (dp # dps)))"

definition read_all_data :: "'n aenv \<Rightarrow> arow list \<Rightarrow> pyerr + 'n datapoint list" where
  "read_all_data env rows =
     all_data_rows env
       \<lparr> last_pupil_left = None, last_pupil_right = None, last_time = - 1 \<rparr> rows"

subsection \<open>The spec's validity classifier and pupil derivation\<close>

text \<open>
  The spec's words: a sample is valid iff at least one eye's validity code meets the
  tracker's threshold. For this tracker the code meets it when it is below 2, as the
  saccade reader has it. A code that is missing meets nothing.
\<close>

definition spec_is_valid :: "arow \<Rightarrow> bool" where
  "spec_is_valid row \<longleftrightarrow>
     (case map_of row ''ValidityLeft'' of
        None \<Rightarrow> False
      | Some c \<Rightarrow> (case cast_int_decimal (PStr c) of None \<Rightarrow> False | Some l \<Rightarrow> l < 2))
     \<or> (case map_of row ''ValidityRight'' of
        None \<Rightarrow> False
      | Some c \<Rightarrow> (case cast_int_decimal (PStr c) of None \<Rightarrow> False | Some r \<Rightarrow> r < 2))"

text \<open>
  Modelled from the spec: \<^verbatim>\<open>EMDAT_core.utils.get_pupil_size\<close> is not among the
  source files; the spec gives the pupil size as the average of the valid left and
  right values, an unavailable eye excluded, and as nullable.
\<close>

definition average_pupil_size :: "real option \<Rightarrow> real option \<Rightarrow> real option" where
  "average_pupil_size l r =
     (case (l, r) of
        (Some a, Some b) \<Rightarrow> Some ((a + b) / 2)
      | (Some a, None) \<Rightarrow> Some a
      | (None, Some b) \<Rightarrow> Some b
      | (None, None) \<Rightarrow> None)"

definition decimal_float :: "string \<Rightarrow> real option" where
  "decimal_float s = map_option real_of_int (cast_int_decimal (PStr s))"

text \<open>The spec's pupil size of a row, from its two pupil columns.\<close>

definition spec_pupil_size :: "arow \<Rightarrow> real option" where
  "spec_pupil_size row =
     average_pupil_size
       (case map_of row ''PupilLeft'' of None \<Rightarrow> None | Some c \<Rightarrow> decimal_float c)
       (case map_of row ''PupilRight'' of None \<Rightarrow> None | Some c \<Rightarrow> decimal_float c)"

definition reference_aenv :: "real option aenv" where
  "reference_aenv =
     \<lparr> py_float = decimal_float,
       get_pupil_size = (\<lambda>l r. Inr (average_pupil_size l r)),
       get_pupil_velocity = (\<lambda>_ _ _ _ _. Inr None),
       get_distance = (\<lambda>l r. Inr (average_pupil_size l r)) \<rparr>"

text \<open>A row whose two eyes are invalid (code 4) and whose pupils are 3 and 5.\<close>

definition both_eyes_invalid_row :: arow where
  "both_eyes_invalid_row =
     [(''RecordingTimestamp'', ''7''), (''avg_x'', ''3''),
      (''ValidityLeft'', ''4''), (''ValidityRight'', ''4''),
      (''PupilLeft'', ''3''), (''PupilRight'', ''5'')]"

section \<open>BasicParticipant\<close>

text \<open>
  Of a \<^verbatim>\<open>Segment\<close> (a class of \<^verbatim>\<open>EMDAT_core\<close>) the constructor reads the
  attribute \<^verbatim>\<open>start\<close> only.
\<close>

record segment =
  segid :: string
  start :: int

text \<open>
  The arguments of \<^verbatim>\<open>BasicParticipant.__init__\<close>. Identifiers are strings, on
  which \<^verbatim>\<open>str\<close> is the identity; \<open>'rps\<close> is the type of one participant's rest
  pupil sizes.
\<close>

record 'rps bp_args =
  pid :: string
  eventfile :: "string option"
  datafile :: string
  fixfile :: string
  saccfile :: "string option"
  segfile :: string
  log_time_offset :: "int option"
  aoifile :: "string option"
  prune_length :: "int option"
  require_valid_segs :: bool
  auto_partition_low_quality_segments :: bool
  rpsdata :: "'rps option"
  export_pupilinfo :: bool

text \<open>
  What the module uses and the source files do not hold is a parameter: the constants
  of \<^verbatim>\<open>params\<close>, the constructor of the base class \<^verbatim>\<open>Participant\<close> (it may
  raise), the constructors of the three recording classes (the first argument is the
  class name; the others are the sample file, the fixation file, the saccade file, the
  event file and the media offset), \<^verbatim>\<open>partition\<close>, \<^verbatim>\<open>read_aois\<close>,
  \<^verbatim>\<open>process_rec\<close>, the constructor of \<^verbatim>\<open>Scene\<close> (scene id, recording,
  \<^verbatim>\<open>Segments\<close>, \<^verbatim>\<open>aoilist\<close>, \<^verbatim>\<open>prune_length\<close>, \<^verbatim>\<open>require_valid\<close>,
  \<^verbatim>\<open>export_pupilinfo\<close>), \<^verbatim>\<open>Scene.clean_memory\<close>, the two functions of
  \<^verbatim>\<open>os.path\<close> and \<^verbatim>\<open>read_rest_pupil_sizes\<close>. Printing is left out, and so
  is \<^verbatim>\<open>rec.clean_memory()\<close>, which touches the recording only.
\<close>

record ('rec, 'scene, 'sl, 'aoi, 'rps) penv =
  EYETRACKERTYPE :: string
  MEDIA_OFFSET :: "int \<times> int"
  Participant_init :: "'rps bp_args \<Rightarrow> pyerr option"
  Recording_init ::
    "string \<Rightarrow> string \<Rightarrow> string \<Rightarrow> string option \<Rightarrow> string option \<Rightarrow> int \<times> int
       \<Rightarrow> pyerr + 'rec"
  partition_seg :: "string \<Rightarrow> pyerr + ('sl \<times> int)"
  read_aois :: "string \<Rightarrow> pyerr + 'aoi"
  process_rec ::
    "'rec \<Rightarrow> 'sl \<Rightarrow> 'aoi option \<Rightarrow> int option \<Rightarrow> bool \<Rightarrow> bool \<Rightarrow> 'rps option \<Rightarrow> bool
       \<Rightarrow> pyerr + (segment list \<times> 'scene list)"
  Scene_init ::
    "string \<Rightarrow> 'rec \<Rightarrow> segment list \<Rightarrow> 'aoi option \<Rightarrow> int option \<Rightarrow> bool \<Rightarrow> bool
       \<Rightarrow> pyerr + 'scene"
  scene_clean_memory :: "'scene \<Rightarrow> 'scene"
  path_join :: "string \<Rightarrow> string \<Rightarrow> string"
  path_exists :: "string \<Rightarrow> bool"
  read_rest_pupil_sizes :: "string option \<Rightarrow> pyerr + (string \<rightharpoonup> 'rps) option"

text \<open>The attributes the constructor sets on the new object.\<close>

record 'scene participant =
  features :: "(string \<times> int) list"
  numofsegments :: int
  segments :: "segment list"
  scenes :: "'scene list"
  whole_scene :: "'scene"

text \<open>Lines 103 to 113: the parser of the configured tracker.\<close>

definition make_recording ::
  "('rec, 'scene, 'sl, 'aoi, 'rps) penv \<Rightarrow> 'rps bp_args \<Rightarrow> pyerr + 'rec" where
  "make_recording env a =
     (if EYETRACKERTYPE env = ''TobiiV2'' then
        Recording_init env ''TobiiV2Recording'' (datafile a) (fixfile a) None
          (eventfile a) (MEDIA_OFFSET env)
      else if EYETRACKERTYPE env = ''TobiiV3'' then
        Recording_init env ''TobiiV3Recording'' (datafile a) (fixfile a) (saccfile a)
          (eventfile a) (MEDIA_OFFSET env)
      else if EYETRACKERTYPE env = ''SMI'' then
        Recording_init env ''SMIRecording'' (datafile a) (fixfile a) (saccfile a)
          (eventfile a) (MEDIA_OFFSET env)
      else Inl (Exception ''Unknown eye tracker type.''))"

text \<open>
  Lines 136 to 153, once the partition and the areas of interest are there.
  \<^verbatim>\<open>sorted\<close> is stable, as \<open>sort_key\<close> is; \<^verbatim>\<open>insert(0, ...)\<close> puts the
  whole-recording scene in front; \<^verbatim>\<open>clean_memory\<close> then updates every scene of
  the list, the whole-recording scene among them.
\<close>

definition build_scenes ::
  "('rec, 'scene, 'sl, 'aoi, 'rps) penv \<Rightarrow> 'rps bp_args \<Rightarrow> 'rec \<Rightarrow> 'sl \<Rightarrow> int
     \<Rightarrow> 'aoi option \<Rightarrow> pyerr + 'scene participant" where
  "build_scenes env a rec scenelist n aois =
     (case process_rec env rec scenelist aois (prune_length a) (require_valid_segs a)
             (auto_partition_low_quality_segments a) (rpsdata a) (export_pupilinfo a) of
        Inl e \<Rightarrow> Inl e
      | Inr (segs, scs) \<Rightarrow>
          (let all_segs = sort_key start segs
           in case Scene_init env (pid a @ ''_allsc'') rec all_segs aois (prune_length a)
                     (require_valid_segs a) (export_pupilinfo a) of
                Inl e \<Rightarrow> Inl e
              | Inr ws \<Rightarrow>
                  Inr \<lparr> features = [(''numofsegments'', n)],
                        numofsegments = n,
                        segments = segs,
                        scenes = map (scene_clean_memory env) (ws # scs),
                        whole_scene = scene_clean_memory env ws \<rparr>))"

definition BasicParticipant_init ::
  "('rec, 'scene, 'sl, 'aoi, 'rps) penv \<Rightarrow> 'rps bp_args \<Rightarrow> pyerr + 'scene participant" where
  "BasicParticipant_init env a =
     (case Participant_init env a of
        Some e \<Rightarrow> Inl e
      | None \<Rightarrow>
     (case make_recording env a of
        Inl e \<Rightarrow> Inl e
      | Inr rec \<Rightarrow>
     (case partition_seg env (segfile a) of
        Inl e \<Rightarrow> Inl e
      | Inr (scenelist, n) \<Rightarrow>
          if n = 0 then Inl (Exception ''No segments found.'')
          else
            (case (case aoifile a of
                     None \<Rightarrow> Inr None
                   | Some f \<Rightarrow> (case read_aois env f of
                                  Inl e \<Rightarrow> Inl e
                                | Inr aois \<Rightarrow> Inr (Some aois))) of
               Inl e \<Rightarrow> Inl e
             | Inr aois \<Rightarrow> build_scenes env a rec scenelist n aois))))"

section \<open>read\_participants\_Basic\<close>

text \<open>
  What a call does besides returning: the lines written by \<^verbatim>\<open>log_to_file\<close>, the
  messages of \<^verbatim>\<open>warn\<close>, and the argument records of the \<^verbatim>\<open>BasicParticipant\<close>
  constructions it started, in order. \<open>failure\<close> is the exception that left the
  function, if one did; \<open>participants\<close> is the list built so far, which the
  function returns when there is no failure.
\<close>

record ('scene, 'rps) batch =
  participants :: "'scene participant list"
  log_file :: "string list"
  warnings :: "string list"
  constructed :: "'rps bp_args list"
  failure :: "pyerr option"

definition empty_batch :: "('scene, 'rps) batch" where
  "empty_batch =
     \<lparr> participants = [], log_file = [], warnings = [], constructed = [],
       failure = None \<rparr>"

text \<open>
  Lines 215 to 234: the five file names (sample file, fixation file, event file,
  saccade file, segment file). With another tracker type no branch assigns
  \<^verbatim>\<open>allfile\<close>, and reading it raises a \<^verbatim>\<open>NameError\<close>.
\<close>

definition participant_files ::
  "('rec, 'scene, 'sl, 'aoi, 'rps) penv \<Rightarrow> string \<Rightarrow> string
     \<Rightarrow> pyerr + (string \<times> string \<times> string option \<times> string option \<times> string)" where
  "participant_files env datadir rec =
     (if EYETRACKERTYPE env = ''TobiiV2'' then
        Inr (path_join env datadir (rec @ ''-All-Data.tsv''),
             path_join env datadir (rec @ ''-Fixation-Data.tsv''),
             None, None,
             path_join env datadir (rec @ ''.seg''))
      else if EYETRACKERTYPE env = ''TobiiV3'' then
        Inr (path_join env datadir (rec @ ''-All-Data.tsv''),
             path_join env datadir (rec @ ''-All-Data.tsv''),
             None,
             Some (path_join env datadir (rec @ ''-All-Data.tsv'')),
             path_join env datadir (rec @ ''.seg''))
      else if EYETRACKERTYPE env = ''SMI'' then
        Inr (datadir @ ''/SMI_Sample_'' @ rec @ ''_Samples.txt'',
             datadir @ ''/SMI_Sample_'' @ rec @ ''_Events.txt'',
             Some (datadir @ ''/SMI_Sample_'' @ rec @ ''_Events.txt''),
             Some (datadir @ ''/SMI_Sample_'' @ rec @ ''_Events.txt''),
             datadir @ ''/SMI_Sample_'' @ rec @ ''.seg'')
      else Inl NameError)"

text \<open>Lines 210 to 213: \<^verbatim>\<open>rpsdata[pid]\<close> raises \<^verbatim>\<open>KeyError\<close> for a missing key.\<close>

definition current_rps :: "(string \<rightharpoonup> 'rps) option \<Rightarrow> string \<Rightarrow> pyerr + 'rps option" where
  "current_rps rps p =
     (case rps of
        None \<Rightarrow> Inr None
      | Some m \<Rightarrow> (case m p of None \<Rightarrow> Inl KeyError | Some v \<Rightarrow> Inr (Some v)))"

text \<open>The arguments of the call of lines 237 to 240.\<close>

definition participant_args ::
  "string \<Rightarrow> string \<times> string \<times> string option \<times> string option \<times> string \<Rightarrow> int
     \<Rightarrow> string option \<Rightarrow> int option \<Rightarrow> bool \<Rightarrow> bool \<Rightarrow> 'rps option \<Rightarrow> 'rps bp_args" where
  "participant_args rec files offset aoi prune rvs apl currps =
     (case files of (allfile, fixf, evefile, sacfile, segf) \<Rightarrow>
        \<lparr> pid = rec, eventfile = evefile, datafile = allfile, fixfile = fixf,
          saccfile = sacfile, segfile = segf, log_time_offset = Some offset,
          aoifile = aoi, prune_length = prune, require_valid_segs = rvs,
          auto_partition_low_quality_segments = apl, rpsdata = currps,
          export_pupilinfo = True \<rparr>)"

text \<open>The line written for a recording whose sample file is missing.\<close>

definition missing_file_message :: "string \<Rightarrow> string" where
  "missing_file_message p = ''Error reading participant files for: '' @ p"

text \<open>
  The body of \<^verbatim>\<open>for rec, pid, offset in zip(...)\<close>. There is no
  \<^verbatim>\<open>try\<close> in the function: an exception of the constructor leaves it.
\<close>

definition process_recording ::
  "('rec, 'scene, 'sl, 'aoi, 'rps) penv \<Rightarrow> string \<Rightarrow> int option \<Rightarrow> string option
     \<Rightarrow> bool \<Rightarrow> bool \<Rightarrow> (string \<rightharpoonup> 'rps) option
     \<Rightarrow> ('scene, 'rps) batch \<Rightarrow> string \<times> string \<times> int \<Rightarrow> ('scene, 'rps) batch" where
  "process_recording env datadir prune aoi rvs apl rps b t =
     (case t of (rec, p, offset) \<Rightarrow>
        (case current_rps rps p of
           Inl e \<Rightarrow> b\<lparr>failure := Some e\<rparr>
         | Inr currps \<Rightarrow>
        (case participant_files env datadir rec of
           Inl e \<Rightarrow> b\<lparr>failure := Some e\<rparr>
         | Inr files \<Rightarrow>
             if path_exists env (fst files) then
               (let a = participant_args rec files offset aoi prune rvs apl currps
                in case BasicParticipant_init env a of
                     Inl e \<Rightarrow> b\<lparr>constructed := constructed b @ [a], failure := Some e\<rparr>
                   | Inr q \<Rightarrow> b\<lparr>constructed := constructed b @ [a],
                                 participants := participants b @ [q]\<rparr>)
             else
               b\<lparr>log_file := log_file b
                    @ [missing_file_message p @ '' FILE NOT FOUND'' @ [CHR 0x0A]],
                 warnings := warnings b @ [missing_file_message p]\<rparr>)))"

fun batch_loop ::
  "('rec, 'scene, 'sl, 'aoi, 'rps) penv \<Rightarrow> string \<Rightarrow> int option \<Rightarrow> string option
     \<Rightarrow> bool \<Rightarrow> bool \<Rightarrow> (string \<rightharpoonup> 'rps) option
     \<Rightarrow> ('scene, 'rps) batch \<Rightarrow> (string \<times> string \<times> int) list \<Rightarrow> ('scene, 'rps) batch" where
  "batch_loop env datadir prune aoi rvs apl rps b [] = b"
| "batch_loop env datadir prune aoi rvs apl rps b (t # ts) =
     (let b' = process_recording env datadir prune aoi rvs apl rps b t
      in if failure b' = None then batch_loop env datadir prune aoi rvs apl rps b' ts
         else b')"

text \<open>
  The default of line 203 is the list \<^verbatim>\<open>[1] * len(pids)\<close>; \<^verbatim>\<open>zip\<close> stops at
  the shortest of its three lists.
\<close>

definition read_participants_Basic ::
  "('rec, 'scene, 'sl, 'aoi, 'rps) penv \<Rightarrow> string \<Rightarrow> string list \<Rightarrow> string list
     \<Rightarrow> int option \<Rightarrow> string option \<Rightarrow> int list option \<Rightarrow> bool \<Rightarrow> bool \<Rightarrow> string option
     \<Rightarrow> ('scene, 'rps) batch" where
  "read_participants_Basic env datadir user_list pids prune aoi log_time_offsets rvs apl
       rpsfile =
     (let offsets = (case log_time_offsets of
                       None \<Rightarrow> replicate (length pids) 1
                     | Some l \<Rightarrow> l)
      in case read_rest_pupil_sizes env rpsfile of
           Inl e \<Rightarrow> empty_batch\<lparr>failure := Some e\<rparr>
         | Inr rps \<Rightarrow>
             batch_loop env datadir prune aoi rvs apl rps empty_batch
               (zip user_list (zip pids offsets)))"

text \<open>
  The argument is a bare integer. The comment of line 202 gives the unit of the default:
  \<^verbatim>\<open>setting the default offset which is 1 sec\<close>. An offset in seconds, read in
  milliseconds:
\<close>

definition offset_in_ms :: "int \<Rightarrow> int" where
  "offset_in_ms seconds = 1000 * seconds"

subsection \<open>A concrete experiment\<close>

text \<open>
  A TobiiV2 experiment in the directory \<^verbatim>\<open>data\<close>. The sample files of the
  recordings \<^verbatim>\<open>r1\<close>, \<^verbatim>\<open>r2\<close>, \<^verbatim>\<open>r4\<close> and \<^verbatim>\<open>r5\<close> exist, the one
  of \<^verbatim>\<open>r3\<close> does not. The segment file of \<^verbatim>\<open>r2\<close> holds no segment; every
  other partition has three. The sample file of \<^verbatim>\<open>r4\<close> has a malformed cell, on
  which the parser raises \<^verbatim>\<open>ValueError\<close>. A scene is its id with its segments.
\<close>

definition demo_segments :: "segment list" where
  "demo_segments =
     [\<lparr>segid = ''b'', start = 50\<rparr>, \<lparr>segid = ''c'', start = 50\<rparr>,
      \<lparr>segid = ''a'', start = 0\<rparr>]"

definition demo_env :: "(unit, string \<times> segment list, unit, unit, unit) penv" where
  "demo_env =
     \<lparr> EYETRACKERTYPE = ''TobiiV2'',
       MEDIA_OFFSET = (0, 0),
       Participant_init = (\<lambda>_. None),
       Recording_init = (\<lambda>_ d _ _ _ _. if d = ''data/r4-All-Data.tsv'' then Inl ValueError
                                        else Inr ()),
       partition_seg = (\<lambda>f. if f = ''data/r2.seg'' then Inr ((), 0) else Inr ((), 3)),
       read_aois = (\<lambda>_. Inr ()),
       process_rec = (\<lambda>_ _ _ _ _ _ _ _. Inr (demo_segments, [(''s1'', demo_segments)])),
       Scene_init = (\<lambda>scid _ segs _ _ _ _. Inr (scid, segs)),
       scene_clean_memory = (\<lambda>sc. sc),
       path_join = (\<lambda>d f. d @ ''/'' @ f),
       path_exists = (\<lambda>f. f \<in> set [''data/r1-All-Data.tsv'', ''data/r2-All-Data.tsv'',
                                   ''data/r4-All-Data.tsv'', ''data/r5-All-Data.tsv'']),
       read_rest_pupil_sizes = (\<lambda>_. Inr None) \<rparr>"

definition demo_args :: "string \<Rightarrow> unit bp_args" where
  "demo_args r =
     participant_args r
       (''data/'' @ r @ ''-All-Data.tsv'', ''data/'' @ r @ ''-Fixation-Data.tsv'',
        None, None, ''data/'' @ r @ ''.seg'')
       1 None None True False None"

text \<open>
  The same experiment when a file of rest pupil sizes is read whose table knows the
  participant \<^verbatim>\<open>p1\<close> only.
\<close>

definition demo_env_rps :: "(unit, string \<times> segment list, unit, unit, unit) penv" where
  "demo_env_rps =
     demo_env\<lparr>read_rest_pupil_sizes := (\<lambda>_. Inr (Some (map_of [(''p1'', ())])))\<rparr>"

section \<open>Properties of read\_saccade\_data\<close>

lemmas saccade_defs =
  row_step_def skipped_def fixation_branch_def saccade_branch_def close_window_def
  emit_saccade_def window_rate_def update_last_gaze_def valid_gaze_def

lemmas reference_defs =
  validity_codes_ok_def gaze_sample_def fixation_sample_def reference_env_def
  screen_sample_def cast_int_decimal_def digit_value_def

subsection \<open>The counters of a window\<close>

lemma fixation_branch_keeps:
  assumes "counters_ok st" "fixation_branch env st row = Inr st'"
  shows "counters_ok st' \<and> all_saccade st' = all_saccade st"
  using assms
  by (auto simp: fixation_branch_def counters_ok_def Let_def split: if_splits sum.splits)

lemma close_window_counts:
  assumes "counters_ok st" "in_saccade st" "close_window env st row = Inr w"
  shows "0 \<le> nb_valid_sample w \<and> nb_valid_sample w \<le> nb_sample w \<and> 0 < nb_sample w"
  using assms
  by (auto simp: close_window_def counters_ok_def Let_def split: if_splits sum.splits)

lemma close_window_frame:
  assumes "close_window env st row = Inr w"
  shows "all_saccade w = all_saccade st \<and> \<not> in_saccade w \<and> in_fixation w
         \<and> nb_invalid_temp w = nb_invalid_temp st"
  using assms
  by (auto simp: close_window_def Let_def split: if_splits sum.splits)

lemma emit_saccade_appends:
  assumes "emit_saccade env w row r = Inr st'"
  shows "\<exists>s. all_saccade st' = all_saccade w @ [s] \<and> saccadequality s = r"
  using assms
  by (auto simp: emit_saccade_def split: list.splits option.splits sum.splits if_splits prod.splits)

lemma emit_saccade_frame:
  assumes "emit_saccade env w row r = Inr st'"
  shows "in_saccade st' = in_saccade w \<and> in_fixation st' = in_fixation w
         \<and> nb_invalid_temp st' = nb_invalid_temp w"
  using assms
  by (auto simp: emit_saccade_def split: list.splits option.splits sum.splits if_splits prod.splits)

lemma window_rate_unit:
  assumes "0 \<le> nb_valid_sample w" "nb_valid_sample w \<le> nb_sample w" "0 < nb_sample w"
  shows "0 \<le> window_rate w \<and> window_rate w \<le> 1"
  using assms by (simp add: window_rate_def)

lemma saccade_branch_keeps:
  assumes "counters_ok st" "in_saccade st" "qualities_ok (all_saccade st)"
    and "saccade_branch env st row = Inr st'"
  shows "counters_ok st' \<and> qualities_ok (all_saccade st')"
proof (cases "GazeEventType row = ''Fixation''")
  case True
  from assms(4) True obtain w where w: "close_window env st row = Inr w"
    by (auto simp: saccade_branch_def split: sum.splits)
  note cnt = close_window_counts [OF assms(1,2) w]
  note frm = close_window_frame [OF w]
  have rate: "0 \<le> window_rate w \<and> window_rate w \<le> 1"
    using cnt by (simp add: window_rate_unit)
  show ?thesis
  proof (cases "VALID_SAMPLES_PROP_SACCADE env \<le> window_rate w")
    case emit: True
    from assms(4) True w cnt emit obtain st'' where
      e: "emit_saccade env w row (window_rate w) = Inr st''" and st': "st' = st''\<lparr>nb_invalid_temp := 0\<rparr>"
      by (auto simp: saccade_branch_def split: sum.splits)
    from emit_saccade_appends [OF e] obtain s where
      s: "all_saccade st'' = all_saccade w @ [s]" "saccadequality s = window_rate w" by blast
    from emit_saccade_frame [OF e] frm have "\<not> in_saccade st''" by simp
    then show ?thesis
      using st' s rate frm assms(3) by (auto simp: counters_ok_def qualities_ok_def)
  next
    case False
    with assms(4) True w cnt have "st' = w\<lparr>nb_invalid_temp := 0\<rparr>"
      by (auto simp: saccade_branch_def split: sum.splits)
    then show ?thesis
      using frm assms(3) by (auto simp: counters_ok_def)
  qed
next
  case False
  with assms show ?thesis
    by (auto simp: saccade_branch_def counters_ok_def split: sum.splits if_splits)
qed

lemma update_last_gaze_frame:
  assumes "update_last_gaze env st row = Inr st'"
  shows "all_saccade st' = all_saccade st \<and> in_saccade st' = in_saccade st
         \<and> in_fixation st' = in_fixation st
         \<and> nb_invalid_temp st' = nb_invalid_temp st
         \<and> nb_valid_sample st' = nb_valid_sample st \<and> nb_sample st' = nb_sample st"
  using assms
  by (auto simp: update_last_gaze_def split: if_splits sum.splits)

lemma row_step_keeps:
  assumes "counters_ok st" "qualities_ok (all_saccade st)" "row_step env st row = Inr st'"
  shows "counters_ok st' \<and> qualities_ok (all_saccade st')"
proof (cases "skipped row")
  case True
  with assms show ?thesis by (simp add: row_step_def)
next
  case False
  with assms(3) obtain m where
    m: "(if in_fixation st then fixation_branch env st row
         else if in_saccade st then saccade_branch env st row
         else if GazeEventType row = ''Fixation'' then Inr (st\<lparr>in_fixation := True\<rparr>)
         else Inr st) = Inr m"
    and u: "update_last_gaze env m row = Inr st'"
    by (auto simp: row_step_def split: sum.splits)
  have "counters_ok m \<and> qualities_ok (all_saccade m)"
  proof (cases "in_fixation st")
    case True
    with m fixation_branch_keeps [OF assms(1)] assms(2) show ?thesis by auto
  next
    case nf: False
    show ?thesis
    proof (cases "in_saccade st")
      case True
      with nf m saccade_branch_keeps [OF assms(1) _ assms(2)] show ?thesis by auto
    next
      case False
      with nf m assms(1,2) show ?thesis
        by (auto simp: counters_ok_def split: if_splits)
    qed
  qed
  with update_last_gaze_frame [OF u] show ?thesis
    by (simp add: counters_ok_def)
qed

lemma run_rows_keeps:
  assumes "counters_ok st" "qualities_ok (all_saccade st)" "run_rows env st rows = Inr st'"
  shows "counters_ok st' \<and> qualities_ok (all_saccade st')"
  using assms
proof (induction rows arbitrary: st)
  case Nil
  then show ?case by simp
next
  case (Cons row rows)
  from Cons.prems(3) obtain m where
    m: "row_step env st row = Inr m" and r: "run_rows env m rows = Inr st'"
    by (auto split: sum.splits)
  from row_step_keeps [OF Cons.prems(1,2) m] Cons.IH [OF _ _ r] show ?case by blast
qed

lemma init_state_ok: "counters_ok init_state \<and> qualities_ok (all_saccade init_state)"
  by (simp add: counters_ok_def qualities_ok_def init_state_def)

text \<open>
  Claim C9. Every saccade that \<^verbatim>\<open>read_saccade_data\<close> returns has a quality between
  0 and 1; and in every state the loop reaches with a window open, whatever the rows
  read so far, the boundary sample leaves a valid counter between zero and the total
  counter, which is positive.
\<close>

theorem saccade_quality_in_unit_interval:
  "(read_saccade_data env rows = Inr sacs \<longrightarrow>
      (\<forall>s \<in> set sacs. 0 \<le> saccadequality s \<and> saccadequality s \<le> 1))
   \<and> (run_rows env init_state rows = Inr st \<and> in_saccade st
        \<and> close_window env st row = Inr w \<longrightarrow>
      0 \<le> nb_valid_sample w \<and> nb_valid_sample w \<le> nb_sample w \<and> 0 < nb_sample w)"
proof (intro conjI impI)
  assume "read_saccade_data env rows = Inr sacs"
  then obtain st0 where r: "run_rows env init_state rows = Inr st0" and s: "sacs = all_saccade st0"
    by (auto simp: read_saccade_data_def split: sum.splits)
  from run_rows_keeps [OF _ _ r] init_state_ok have "qualities_ok (all_saccade st0)" by blast
  with s show "\<forall>s \<in> set sacs. 0 \<le> saccadequality s \<and> saccadequality s \<le> 1"
    by (simp add: qualities_ok_def)
next
  assume a: "run_rows env init_state rows = Inr st \<and> in_saccade st
        \<and> close_window env st row = Inr w"
  from run_rows_keeps [OF _ _ conjunct1 [OF a]] init_state_ok have "counters_ok st" by blast
  from close_window_counts [OF this] a
  show "0 \<le> nb_valid_sample w" "nb_valid_sample w \<le> nb_sample w" "0 < nb_sample w" by blast+
qed

theorem saccade_quality_in_unit_interval_witness:
  "map_sum id (map (\<lambda>s. 0 \<le> saccadequality s \<and> saccadequality s \<le> 1))
       (read_saccade_data (reference_env 1) five_sample_stream) = Inr [True]
   \<and> in_saccade (projr (run_rows (reference_env (3 / 5)) init_state low_quality_prefix))
   \<and> map_sum id (\<lambda>w. (nb_valid_sample w, nb_sample w))
       (close_window (reference_env (3 / 5))
          (projr (run_rows (reference_env (3 / 5)) init_state low_quality_prefix))
          low_quality_boundary) = Inr (1, 4)"
proof -
  obtain sacs where a: "read_saccade_data (reference_env 1) five_sample_stream = Inr sacs"
    and l: "length sacs = 1"
    by (simp add: read_saccade_data_def five_sample_stream_def init_state_def
        saccade_defs reference_defs)
  obtain st where b: "run_rows (reference_env (3 / 5)) init_state low_quality_prefix = Inr st"
    and c: "in_saccade st" "nb_valid_sample st = 1" "nb_sample st = 3"
    by (simp add: low_quality_prefix_def init_state_def saccade_defs reference_defs)
  obtain w where d: "close_window (reference_env (3 / 5)) st low_quality_boundary = Inr w"
    and e: "nb_valid_sample w = 1" "nb_sample w = 4"
    using c by (simp add: low_quality_boundary_def close_window_def valid_gaze_def reference_defs)
  from saccade_quality_in_unit_interval [of "reference_env 1" five_sample_stream sacs] a
  have "\<forall>s \<in> set sacs. 0 \<le> saccadequality s \<and> saccadequality s \<le> 1" by blast
  moreover from l obtain s where "sacs = [s]" by (cases sacs) auto
  ultimately have 1: "map_sum id (map (\<lambda>s. 0 \<le> saccadequality s \<and> saccadequality s \<le> 1))
       (read_saccade_data (reference_env 1) five_sample_stream) = Inr [True]"
    using a by simp
  from saccade_quality_in_unit_interval
    [of "reference_env (3 / 5)" low_quality_prefix _ st low_quality_boundary w] b c d
  have "nb_valid_sample w \<le> nb_sample w" by blast
  with 1 b c d e show ?thesis by simp
qed

subsection \<open>The stream of five samples\<close>

text \<open>
  Claim C1, as the code has it. On five samples of the recorded screen classified
  Fixation, Fixation, Saccade, Saccade, Fixation, all with a valid eye and a gaze point,
  \<^verbatim>\<open>read_saccade_data\<close> returns exactly one saccade of quality 1 whose duration is
  the timestamp of the closing Fixation sample minus the timestamp of the Fixation
  sample before the first Saccade sample (the start of the window), when the threshold
  is at most 1, the two timestamps are integers that differ, and the helpers return.
\<close>

theorem five_sample_stream_saccade:
  assumes ev: "GazeEventType r1 = ''Fixation''" "GazeEventType r2 = ''Fixation''"
      "GazeEventType r3 = ''Saccade''" "GazeEventType r4 = ''Saccade''"
      "GazeEventType r5 = ''Fixation''"
    and ok: "\<forall>r \<in> set [r1, r2, r3, r4, r5].
               \<not> skipped r \<and> validity_codes_ok env r = Inr True
               \<and> GazePointX r \<noteq> [] \<and> GazePointY r \<noteq> []"
    and ts: "cast_int env (PStr (RecordingTimestamp r2)) = Some t2"
      "cast_int env (PStr (RecordingTimestamp r5)) = Some t5"
    and dur: "t5 \<noteq> t2" "cast_int env (PInt (t5 - t2)) = Some (t5 - t2)"
    and thr: "VALID_SAMPLES_PROP_SACCADE env \<le> 1"
    and dst: "get_saccade_distance env
               [gaze_sample env r2, gaze_sample env r3, gaze_sample env r4,
                gaze_sample env r5] = Inr d"
  shows "\<exists>s. read_saccade_data env [r1, r2, r3, r4, r5] = Inr [s]
             \<and> saccadequality s = 1 \<and> saccadeduration s = Some (t5 - t2)
             \<and> timestamp s = Some t2"
proof -
  from ok have sk: "\<not> skipped r1" "\<not> skipped r2" "\<not> skipped r3" "\<not> skipped r4" "\<not> skipped r5"
    and vc: "validity_codes_ok env r1 = Inr True" "validity_codes_ok env r2 = Inr True"
      "validity_codes_ok env r3 = Inr True" "validity_codes_ok env r4 = Inr True"
      "validity_codes_ok env r5 = Inr True"
    and gx: "GazePointX r1 \<noteq> []" "GazePointX r2 \<noteq> []" "GazePointX r3 \<noteq> []"
      "GazePointX r4 \<noteq> []" "GazePointX r5 \<noteq> []"
    and gy: "GazePointY r1 \<noteq> []" "GazePointY r2 \<noteq> []" "GazePointY r3 \<noteq> []"
      "GazePointY r4 \<noteq> []" "GazePointY r5 \<noteq> []"
    by simp_all
  define s1 where "s1 = init_state\<lparr>in_fixation := True, last_gaze_coord := gaze_sample env r1,
    last_valid := True\<rparr>"
  have 1: "row_step env init_state r1 = Inr s1"
    using ev sk vc gx gy
    by (simp add: row_step_def update_last_gaze_def s1_def init_state_def)
  define s2 where "s2 = s1\<lparr>last_gaze_coord := gaze_sample env r2\<rparr>"
  have 2: "row_step env s1 r2 = Inr s2"
    using ev sk vc gx gy
    by (simp add: row_step_def update_last_gaze_def fixation_branch_def s1_def s2_def init_state_def)
  define s3 where "s3 = s2\<lparr>in_fixation := False, in_saccade := True,
     current_index := PStr (SaccadeIndex r3),
     saccade_vect := [gaze_sample env r2, gaze_sample env r3],
     nb_valid_sample := 2, nb_sample := 2, last_gaze_coord := gaze_sample env r3\<rparr>"
  have 3: "row_step env s2 r3 = Inr s3"
    using ev sk vc gx gy
    by (simp add: row_step_def update_last_gaze_def fixation_branch_def valid_gaze_def
        s1_def s2_def s3_def init_state_def)
  define s4 where "s4 = s3\<lparr>
     saccade_vect := [gaze_sample env r2, gaze_sample env r3, gaze_sample env r4],
     nb_valid_sample := 3, nb_sample := 3, last_gaze_coord := gaze_sample env r4\<rparr>"
  have 4: "row_step env s3 r4 = Inr s4"
    using ev sk vc gx gy
    by (simp add: row_step_def update_last_gaze_def saccade_branch_def valid_gaze_def
        s1_def s2_def s3_def s4_def init_state_def)
  have g2: "fst (gaze_sample env r2) = Some t2" using ts by (simp add: gaze_sample_def)
  obtain s where 5: "row_step env s4 r5 = Inr s"
    and s: "all_saccade s = [\<lparr> saccadeindex = cast_int env (PStr (SaccadeIndex r3)),
                                timestamp = Some t2,
                                saccadeduration = Some (t5 - t2),
                                saccadestartpointx = fst (snd (gaze_sample env r2)),
                                saccadestartpointy = snd (snd (gaze_sample env r2)),
                                saccadeendpointx = fst (snd (gaze_sample env r5)),
                                saccadeendpointy = snd (snd (gaze_sample env r5)),
                                saccadedistance = d,
                                saccadespeed = d / real_of_int (t5 - t2),
                                saccadeacceleration = - 1,
                                saccadequality = 1 \<rparr>]"
    using ev sk vc gx gy ts dur thr dst g2
    by (simp add: row_step_def update_last_gaze_def saccade_branch_def valid_gaze_def
        close_window_def emit_saccade_def window_rate_def
        s1_def s2_def s3_def s4_def init_state_def)
  from 1 2 3 4 5 have "read_saccade_data env [r1, r2, r3, r4, r5] = Inr (all_saccade s)"
    by (simp add: read_saccade_data_def)
  with s show ?thesis by simp
qed

theorem five_sample_stream_saccade_witness:
  "map GazeEventType five_sample_stream
     = [''Fixation'', ''Fixation'', ''Saccade'', ''Saccade'', ''Fixation'']
   \<and> map_sum id (map (\<lambda>s. (saccadequality s, saccadeduration s, timestamp s)))
       (read_saccade_data (reference_env 1) five_sample_stream)
     = Inr [(1, Some (40 - 10), Some 10)]"
proof -
  have "\<exists>s. read_saccade_data (reference_env 1)
           [screen_sample ''Fixation'' ''0'' ''0'' ''0'' ''5'' ''5'',
            screen_sample ''Fixation'' ''10'' ''0'' ''0'' ''5'' ''5'',
            screen_sample ''Saccade'' ''20'' ''0'' ''0'' ''8'' ''9'',
            screen_sample ''Saccade'' ''30'' ''0'' ''0'' ''11'' ''13'',
            screen_sample ''Fixation'' ''40'' ''0'' ''0'' ''11'' ''13''] = Inr [s]
         \<and> saccadequality s = 1 \<and> saccadeduration s = Some (40 - 10)
         \<and> timestamp s = Some 10"
    by (rule five_sample_stream_saccade)
      (simp_all add: skipped_def reference_defs)
  then show ?thesis
    by (auto simp: five_sample_stream_def screen_sample_def)
qed

text \<open>
  On the concrete stream with timestamps 0, 10, 20, 30, 40 the saccade lasts 30, from
  the second sample to the fifth; the last Saccade sample minus the first Saccade
  sample is 10.
\<close>

theorem five_sample_stream_duration_counterexample:
  "map_sum id (map saccadeduration)
       (read_saccade_data (reference_env 1) five_sample_stream) = Inr [Some 30]
   \<and> spec_saccade_duration (reference_env 1) five_sample_stream = Some 10"
  by (simp add: read_saccade_data_def five_sample_stream_def init_state_def
      saccade_defs reference_defs spec_saccade_duration_def)

subsection \<open>Closing a window\<close>



lemma row_step_in_saccade:
  assumes "\<not> skipped row" "\<not> in_fixation st" "in_saccade st"
  shows "row_step env st row =
           (case saccade_branch env st row of
              Inl e \<Rightarrow> Inl e
            | Inr m \<Rightarrow> update_last_gaze env m row)"
  using assms by (simp add: row_step_def)

lemma saccade_branch_closing:
  assumes "GazeEventType row = ''Fixation''" "close_window env st row = Inr w"
    "nb_sample w \<noteq> 0"
  shows "saccade_branch env st row =
           (if VALID_SAMPLES_PROP_SACCADE env \<le> window_rate w
            then (case emit_saccade env w row (window_rate w) of
                    Inl e \<Rightarrow> Inl e
                  | Inr m \<Rightarrow> Inr (m\<lparr>nb_invalid_temp := 0\<rparr>))
            else Inr (w\<lparr>nb_invalid_temp := 0\<rparr>))"
  using assms by (simp add: saccade_branch_def)

lemma run_rows_snoc:
  "run_rows env st (rows @ [row]) =
     (case run_rows env st rows of
        Inl e \<Rightarrow> Inl e
      | Inr m \<Rightarrow> row_step env m row)"
  by (induction rows arbitrary: st) (auto split: sum.splits)










subsection \<open>A window of duration zero\<close>

lemma emit_saccade_zero_duration:
  assumes "saccade_vect w \<noteq> []"
    and "cast_int env (PStr (RecordingTimestamp row)) = Some t"
    and "fst (hd (saccade_vect w)) = Some t"
    and "get_saccade_distance env (saccade_vect w) = Inr d"
    and "cast_int env (PInt 0) = Some 0"
  shows "emit_saccade env w row r = Inl ZeroDivisionError"
  using assms by (cases "saccade_vect w") (simp_all add: emit_saccade_def)

text \<open>
  Claim C10. The division of line 206 has no guard: whenever a window that passes the
  threshold is closed by a sample whose timestamp is the timestamp the window starts
  with, the iteration raises \<^verbatim>\<open>ZeroDivisionError\<close>. And with the reference
  helpers and any threshold up to 1 there is such a stream, on which the whole parse
  fails with that exception.
\<close>

theorem zero_duration_division_fails:
  "(\<not> skipped row \<and> \<not> in_fixation st \<and> in_saccade st
      \<and> GazeEventType row = ''Fixation''
      \<and> close_window env st row = Inr w \<and> nb_sample w \<noteq> 0
      \<and> VALID_SAMPLES_PROP_SACCADE env \<le> window_rate w
      \<and> saccade_vect w \<noteq> []
      \<and> cast_int env (PStr (RecordingTimestamp row)) = Some t
      \<and> fst (hd (saccade_vect w)) = Some t
      \<and> get_saccade_distance env (saccade_vect w) = Inr d
      \<and> cast_int env (PInt 0) = Some 0
    \<longrightarrow> row_step env st row = Inl ZeroDivisionError)
   \<and> (thr \<le> 1 \<longrightarrow>
        (\<exists>rows row st w t.
           run_rows (reference_env thr) init_state rows = Inr st \<and> in_saccade st
           \<and> close_window (reference_env thr) st row = Inr w
           \<and> thr \<le> window_rate w
           \<and> cast_int (reference_env thr) (PStr (RecordingTimestamp row)) = Some t
           \<and> fst (hd (saccade_vect w)) = Some t
           \<and> read_saccade_data (reference_env thr) (rows @ [row])
               = Inl ZeroDivisionError))"
proof (intro conjI impI)
  assume a: "\<not> skipped row \<and> \<not> in_fixation st \<and> in_saccade st
      \<and> GazeEventType row = ''Fixation''
      \<and> close_window env st row = Inr w \<and> nb_sample w \<noteq> 0
      \<and> VALID_SAMPLES_PROP_SACCADE env \<le> window_rate w
      \<and> saccade_vect w \<noteq> []
      \<and> cast_int env (PStr (RecordingTimestamp row)) = Some t
      \<and> fst (hd (saccade_vect w)) = Some t
      \<and> get_saccade_distance env (saccade_vect w) = Inr d
      \<and> cast_int env (PInt 0) = Some 0"
  then have e: "emit_saccade env w row (window_rate w) = Inl ZeroDivisionError"
    by (intro emit_saccade_zero_duration) simp_all
  from a have "saccade_branch env st row = Inl ZeroDivisionError"
    by (simp add: saccade_branch_closing e)
  with a show "row_step env st row = Inl ZeroDivisionError"
    by (simp add: row_step_in_saccade)
next
  assume thr: "thr \<le> 1"
  let ?env = "reference_env thr"
  let ?pre = "butlast zero_duration_stream" and ?b = "last zero_duration_stream"
  obtain st where b: "run_rows ?env init_state ?pre = Inr st" and c: "in_saccade st"
    "nb_valid_sample st = 2" "nb_sample st = 2"
    "saccade_vect st = [(Some 10, Some 5, Some 5), (Some 10, Some 8, Some 9)]"
    by (simp add: zero_duration_stream_def init_state_def saccade_defs reference_defs)
  obtain w where d: "close_window ?env st ?b = Inr w" and e: "window_rate w = 1"
    "fst (hd (saccade_vect w)) = Some 10"
    using c by (simp add: zero_duration_stream_def close_window_def valid_gaze_def
        window_rate_def reference_defs)
  have t: "cast_int ?env (PStr (RecordingTimestamp ?b)) = Some 10"
    by (simp add: zero_duration_stream_def reference_defs)
  have r: "read_saccade_data ?env (?pre @ [?b]) = Inl ZeroDivisionError"
    using thr
    by (simp add: read_saccade_data_def zero_duration_stream_def init_state_def
        saccade_defs reference_defs)
  from thr e have "thr \<le> window_rate w" by simp
  with b c(1) d e(2) t r
  show "\<exists>rows row st w t.
           run_rows ?env init_state rows = Inr st \<and> in_saccade st
           \<and> close_window ?env st row = Inr w
           \<and> thr \<le> window_rate w
           \<and> cast_int ?env (PStr (RecordingTimestamp row)) = Some t
           \<and> fst (hd (saccade_vect w)) = Some t
           \<and> read_saccade_data ?env (rows @ [row]) = Inl ZeroDivisionError"
    by blast
qed

theorem zero_duration_division_fails_witness:
  "read_saccade_data (reference_env 1) zero_duration_stream = Inl ZeroDivisionError
   \<and> (\<exists>rows row. read_saccade_data (reference_env 1) (rows @ [row])
                   = Inl ZeroDivisionError)"
proof -
  let ?env = "reference_env 1"
  let ?pre = "butlast zero_duration_stream" and ?b = "last zero_duration_stream"
  obtain st where b: "run_rows ?env init_state ?pre = Inr st"
    and c: "in_saccade st" "\<not> in_fixation st"
    "nb_valid_sample st = 2" "nb_sample st = 2"
    "saccade_vect st = [(Some 10, Some 5, Some 5), (Some 10, Some 8, Some 9)]"
    by (simp add: zero_duration_stream_def init_state_def saccade_defs reference_defs)
  obtain w where d: "close_window ?env st ?b = Inr w" and e: "window_rate w = 1"
    "nb_sample w = 3"
    "saccade_vect w = [(Some 10, Some 5, Some 5), (Some 10, Some 8, Some 9),
       (Some 10, Some 11, Some 13)]"
    using c by (simp add: zero_duration_stream_def close_window_def valid_gaze_def
        window_rate_def reference_defs)
  have f: "\<not> skipped ?b" "GazeEventType ?b = ''Fixation''"
    "cast_int ?env (PStr (RecordingTimestamp ?b)) = Some 10"
    "cast_int ?env (PInt 0) = Some 0"
    "VALID_SAMPLES_PROP_SACCADE ?env = 1"
    by (simp_all add: zero_duration_stream_def skipped_def reference_defs)
  have g: "get_saccade_distance ?env (saccade_vect w) = Inr (sqrt 25 + (sqrt 25 + 0))"
    by (simp add: e reference_env_def)
  from zero_duration_division_fails
    [of ?b st ?env w 10 "sqrt 25 + (sqrt 25 + 0)" 1] c d e f g
  have 1: "row_step ?env st ?b = Inl ZeroDivisionError"
    and 2: "\<exists>rows row. read_saccade_data ?env (rows @ [row]) = Inl ZeroDivisionError"
    by auto
  have "zero_duration_stream = ?pre @ [?b]" by (simp add: zero_duration_stream_def)
  then have "run_rows ?env init_state zero_duration_stream = Inl ZeroDivisionError"
    using run_rows_snoc [of ?env init_state ?pre ?b] b 1 by simp
  then show ?thesis using 2 by (simp add: read_saccade_data_def)
qed

section \<open>Properties of read\_all\_data\<close>

lemma all_data_row_fields:
  assumes "all_data_row env st row = Inr (dp, st')"
  shows "is_valid dp \<and> is_valid_blink dp = None
         \<and> get_pupil_size env None None = Inr (pupilsize dp)
         \<and> get_distance env None None = Inr (distance dp)"
  using assms
  by (auto simp: all_data_row_def Let_def split: sum.splits option.splits)

lemma all_data_rows_fields:
  assumes "all_data_rows env st rows = Inr dps"
  shows "length dps = length rows
         \<and> (\<forall>dp \<in> set dps. is_valid dp \<and> is_valid_blink dp = None
               \<and> get_pupil_size env None None = Inr (pupilsize dp))"
  using assms
proof (induction rows arbitrary: st dps)
  case Nil
  then show ?case by simp
next
  case (Cons row rows)
  from Cons.prems obtain dp st' rest where
    r: "all_data_row env st row = Inr (dp, st')"
    and t: "all_data_rows env st' rows = Inr rest" and d: "dps = dp # rest"
    by (auto split: sum.splits prod.splits)
  from all_data_row_fields [OF r] Cons.IH [OF t] d show ?case by simp
qed

lemmas all_data_defs =
  read_all_data_def all_data_row_def row_get_def reference_aenv_def decimal_float_def
  cast_int_decimal_def digit_value_def average_pupil_size_def py_int_of_float_def
  both_eyes_invalid_row_def

text \<open>
  Claim C3, as the code has it. When \<^verbatim>\<open>read_all_data\<close> returns, it returns one
  data point for each row; the validity flag of every data point is true, whatever the
  validity codes of the row are, its blink flag is \<^verbatim>\<open>None\<close>, and its
  pupil size is what \<^verbatim>\<open>get_pupil_size\<close> returns for two unavailable eyes: no
  pupil column of the row is read.
\<close>

theorem all_data_validity_is_constant:
  assumes "read_all_data env rows = Inr dps"
  shows "length dps = length rows
         \<and> (\<forall>dp \<in> set dps. is_valid dp \<and> is_valid_blink dp = None
               \<and> get_pupil_size env None None = Inr (pupilsize dp))"
  using assms unfolding read_all_data_def by (rule all_data_rows_fields)

theorem all_data_validity_is_constant_witness:
  "map_sum id (map (\<lambda>dp. (is_valid dp, pupilsize dp)))
     (read_all_data reference_aenv [both_eyes_invalid_row]) = Inr [(True, None)]"
proof -
  obtain dps where a: "read_all_data reference_aenv [both_eyes_invalid_row] = Inr dps"
    by (simp add: all_data_defs)
  from all_data_validity_is_constant [OF a]
  have l: "length dps = 1"
    and f: "\<forall>dp \<in> set dps. is_valid dp
              \<and> get_pupil_size reference_aenv None None = Inr (pupilsize dp)"
    by simp_all
  from l obtain dp where "dps = [dp]" by (cases dps) auto
  with f a show ?thesis
    by (auto simp: reference_aenv_def average_pupil_size_def)
qed

text \<open>
  A row whose two validity codes are 4 and whose pupils are 3 and 5 is parsed as a valid
  data point without pupil size; the spec's classifier calls it invalid and the spec's
  pupil size is 4.
\<close>

theorem all_data_validity_counterexample:
  "map_sum id (map is_valid) (read_all_data reference_aenv [both_eyes_invalid_row])
     = Inr [True]
   \<and> \<not> spec_is_valid both_eyes_invalid_row
   \<and> map_sum id (map pupilsize) (read_all_data reference_aenv [both_eyes_invalid_row])
     = Inr [None]
   \<and> spec_pupil_size both_eyes_invalid_row = Some 4"
  by (simp add: all_data_defs spec_is_valid_def spec_pupil_size_def)

section \<open>Properties of BasicParticipant\<close>

lemmas demo_defs =
  read_participants_Basic_def process_recording_def participant_files_def current_rps_def
  BasicParticipant_init_def make_recording_def build_scenes_def demo_env_def
  empty_batch_def missing_file_message_def Let_def

text \<open>
  Claim C6. When \<^verbatim>\<open>partition\<close> returns a segment count of zero, the constructor
  raises and builds no participant; when the base constructor and the parser have
  returned, the exception is the one of line 122, \<^verbatim>\<open>No segments found.\<close>
\<close>

theorem no_segments_raises:
  assumes "partition_seg env (segfile a) = Inr (scenelist, 0)"
  shows "(\<exists>e. BasicParticipant_init env a = Inl e)
         \<and> (Participant_init env a = None \<and> make_recording env a = Inr rec
              \<longrightarrow> BasicParticipant_init env a = Inl (Exception ''No segments found.''))"
  using assms
  by (auto simp: BasicParticipant_init_def split: option.splits sum.splits)

theorem no_segments_raises_witness:
  "partition_seg demo_env (segfile (demo_args ''r2'')) = Inr ((), 0)
   \<and> BasicParticipant_init demo_env (demo_args ''r2'')
     = Inl (Exception ''No segments found.'')"
proof -
  have 1: "partition_seg demo_env (segfile (demo_args ''r2'')) = Inr ((), 0)"
    by (simp add: demo_env_def demo_args_def participant_args_def)
  have 2: "Participant_init demo_env (demo_args ''r2'') = None
           \<and> make_recording demo_env (demo_args ''r2'') = Inr ()"
    by (simp add: demo_env_def demo_args_def participant_args_def make_recording_def)
  from no_segments_raises [OF 1, of "()"] 1 2 show ?thesis by blast
qed

text \<open>
  Claim C7. In every participant the constructor returns, the first element of
  \<^verbatim>\<open>scenes\<close> is the whole-recording scene, the scenes of \<^verbatim>\<open>process_rec\<close>
  follow it, and the whole-recording scene was built by \<^verbatim>\<open>Scene\<close> from the segments
  of \<^verbatim>\<open>process_rec\<close> put in the order of \<open>sort_key start\<close>: ascending start, all
  segments and only them, and segments of equal start in their original order.
\<close>

theorem whole_scene_from_sorted_segments:
  assumes "BasicParticipant_init env a = Inr q"
  shows "\<exists>rec scenelist aois scs ws.
           process_rec env rec scenelist aois (prune_length a) (require_valid_segs a)
             (auto_partition_low_quality_segments a) (rpsdata a) (export_pupilinfo a)
             = Inr (segments q, scs)
           \<and> Scene_init env (pid a @ ''_allsc'') rec (sort_key start (segments q)) aois
               (prune_length a) (require_valid_segs a) (export_pupilinfo a) = Inr ws
           \<and> scenes q = scene_clean_memory env ws # map (scene_clean_memory env) scs
           \<and> whole_scene q = hd (scenes q)
           \<and> sorted (map start (sort_key start (segments q)))
           \<and> mset (sort_key start (segments q)) = mset (segments q)
           \<and> (\<forall>k. filter (\<lambda>s. start s = k) (sort_key start (segments q))
                    = filter (\<lambda>s. start s = k) (segments q))"
proof -
  from assms obtain rec scenelist n aois where
    b: "build_scenes env a rec scenelist n aois = Inr q"
    by (auto simp: BasicParticipant_init_def split: option.splits sum.splits if_splits)
  then obtain segs scs ws where
    p: "process_rec env rec scenelist aois (prune_length a) (require_valid_segs a)
          (auto_partition_low_quality_segments a) (rpsdata a) (export_pupilinfo a)
          = Inr (segs, scs)"
    and s: "Scene_init env (pid a @ ''_allsc'') rec (sort_key start segs) aois
          (prune_length a) (require_valid_segs a) (export_pupilinfo a) = Inr ws"
    and q: "q = \<lparr> features = [(''numofsegments'', n)], numofsegments = n,
                  segments = segs,
                  scenes = map (scene_clean_memory env) (ws # scs),
                  whole_scene = scene_clean_memory env ws \<rparr>"
    by (auto simp: build_scenes_def Let_def split: sum.splits)
  from q have "segments q = segs"
    "scenes q = scene_clean_memory env ws # map (scene_clean_memory env) scs"
    "whole_scene q = hd (scenes q)" by simp_all
  with p s show ?thesis
    by (auto simp: sort_key_stable intro!: exI)
qed

theorem whole_scene_from_sorted_segments_witness:
  "map_sum id scenes (BasicParticipant_init demo_env (demo_args ''r1''))
   = Inr [(''r1_allsc'', [\<lparr>segid = ''a'', start = 0\<rparr>, \<lparr>segid = ''b'', start = 50\<rparr>,
                           \<lparr>segid = ''c'', start = 50\<rparr>]),
          (''s1'', [\<lparr>segid = ''b'', start = 50\<rparr>, \<lparr>segid = ''c'', start = 50\<rparr>,
                    \<lparr>segid = ''a'', start = 0\<rparr>])]"
proof -
  obtain q where a: "BasicParticipant_init demo_env (demo_args ''r1'') = Inr q"
    and b: "segments q = demo_segments"
    by (simp add: demo_defs demo_args_def participant_args_def)
  from whole_scene_from_sorted_segments [OF a] obtain rec scenelist aois scs ws where
    "process_rec demo_env rec scenelist aois (prune_length (demo_args ''r1''))
       (require_valid_segs (demo_args ''r1''))
       (auto_partition_low_quality_segments (demo_args ''r1'')) (rpsdata (demo_args ''r1''))
       (export_pupilinfo (demo_args ''r1'')) = Inr (segments q, scs)"
    and "Scene_init demo_env (pid (demo_args ''r1'') @ ''_allsc'') rec
           (sort_key start (segments q)) aois (prune_length (demo_args ''r1''))
           (require_valid_segs (demo_args ''r1'')) (export_pupilinfo (demo_args ''r1''))
         = Inr ws"
    and "scenes q = scene_clean_memory demo_env ws # map (scene_clean_memory demo_env) scs"
    by blast
  then have "scenes q = [(''r1_allsc'', sort_key start demo_segments), (''s1'', demo_segments)]"
    using b by (auto simp: demo_env_def demo_args_def participant_args_def)
  with a show ?thesis by (simp add: demo_segments_def)
qed

section \<open>Properties of read\_participants\_Basic\<close>

subsection \<open>The default offset\<close>

lemma process_recording_offset:
  assumes "\<forall>a \<in> set (constructed b). log_time_offset a = Some k"
  shows "\<forall>a \<in> set (constructed (process_recording env datadir prune aoi rvs apl rps b
                                   (rec, p, k))). log_time_offset a = Some k"
  using assms
  by (auto simp: process_recording_def participant_args_def Let_def
      split: sum.splits prod.splits)

lemma batch_loop_offset:
  assumes "\<forall>a \<in> set (constructed b). log_time_offset a = Some k"
    and "\<forall>t \<in> set ts. snd (snd t) = k"
  shows "\<forall>a \<in> set (constructed (batch_loop env datadir prune aoi rvs apl rps b ts)).
           log_time_offset a = Some k"
  using assms
proof (induction ts arbitrary: b)
  case Nil
  then show ?case by simp
next
  case (Cons t ts)
  obtain rec p off where t: "t = (rec, p, off)" by (cases t) auto
  with Cons.prems(2) have off: "off = k" by simp
  let ?b' = "process_recording env datadir prune aoi rvs apl rps b t"
  have b': "\<forall>a \<in> set (constructed ?b'). log_time_offset a = Some k"
    unfolding t off by (rule process_recording_offset [OF Cons.prems(1)])
  show ?case
  proof (cases "failure ?b' = None")
    case True
    with Cons.IH [OF b'] Cons.prems(2) show ?thesis by (simp add: Let_def)
  next
    case False
    with b' show ?thesis by (auto simp: Let_def)
  qed
qed

text \<open>
  Claim C2. When \<^verbatim>\<open>log_time_offsets\<close> is \<^verbatim>\<open>None\<close>, every construction of a
  \<^verbatim>\<open>BasicParticipant\<close> that the function starts receives the offset 1, the element
  of the list \<^verbatim>\<open>[1] * len(pids)\<close>; in the unit the source gives this default, one
  second, that is 1000 ms.
\<close>

theorem default_log_time_offset_is_one:
  "\<forall>a \<in> set (constructed (read_participants_Basic env datadir user_list pids prune aoi
                               None rvs apl rpsfile)).
     log_time_offset a = Some 1
     \<and> map_option offset_in_ms (log_time_offset a) = Some 1000"
proof (cases "read_rest_pupil_sizes env rpsfile")
  case (Inl e)
  then show ?thesis by (simp add: read_participants_Basic_def empty_batch_def)
next
  case (Inr rps)
  have "\<forall>t \<in> set (zip user_list (zip pids (replicate (length pids) (1::int)))).
          snd (snd t) = 1"
    by (auto dest!: set_zip_rightD)
  from batch_loop_offset [OF _ this, of empty_batch] Inr show ?thesis
    by (simp add: read_participants_Basic_def empty_batch_def offset_in_ms_def)
qed

theorem default_log_time_offset_is_one_witness:
  "map (\<lambda>a. (log_time_offset a, map_option offset_in_ms (log_time_offset a)))
     (constructed (read_participants_Basic demo_env ''data'' [''r1'', ''r3'', ''r5'']
                     [''p1'', ''p3'', ''p5''] None None None True False None))
   = [(Some 1, Some 1000), (Some 1, Some 1000)]"
proof -
  let ?b = "read_participants_Basic demo_env ''data'' [''r1'', ''r3'', ''r5'']
              [''p1'', ''p3'', ''p5''] None None None True False None"
  have c: "map pid (constructed ?b) = [''r1'', ''r5'']"
    by (simp add: demo_defs participant_args_def)
  then obtain a1 a5 where l: "constructed ?b = [a1, a5]" by auto
  from default_log_time_offset_is_one
    [of demo_env "''data''" "[''r1'', ''r3'', ''r5'']" "[''p1'', ''p3'', ''p5'']"
        None None True False None] l
  have "log_time_offset a1 = Some 1 \<and> map_option offset_in_ms (log_time_offset a1) = Some 1000
        \<and> log_time_offset a5 = Some 1 \<and> map_option offset_in_ms (log_time_offset a5) = Some 1000"
    by auto
  with l show ?thesis by (simp add: offset_in_ms_def)
qed

subsection \<open>A constructor that raises\<close>

text \<open>
  Claim C5, as the code has it. The loop has no handler. When the sample file of a
  recording exists and the constructor raises, the exception leaves
  \<^verbatim>\<open>read_participants_Basic\<close>: nothing is written to the log, no participant is
  returned, and the recordings that follow are neither constructed nor looked at.
\<close>

theorem constructor_failure_aborts_batch:
  assumes "current_rps rps p = Inr currps"
    and "participant_files env datadir rec = Inr files"
    and "path_exists env (fst files)"
    and "BasicParticipant_init env
           (participant_args rec files offset aoi prune rvs apl currps) = Inl e"
  shows "batch_loop env datadir prune aoi rvs apl rps b ((rec, p, offset) # rest)
         = b\<lparr>constructed := constructed b
                 @ [participant_args rec files offset aoi prune rvs apl currps],
              failure := Some e\<rparr>"
proof -
  have "process_recording env datadir prune aoi rvs apl rps b (rec, p, offset)
        = b\<lparr>constructed := constructed b
                 @ [participant_args rec files offset aoi prune rvs apl currps],
              failure := Some e\<rparr>"
    using assms by (simp add: process_recording_def Let_def)
  then show ?thesis by (simp add: Let_def)
qed

theorem constructor_failure_aborts_batch_witness:
  "batch_loop demo_env ''data'' None None True False None empty_batch
     [(''r4'', ''p4'', 1), (''r1'', ''p1'', 1)]
   = empty_batch\<lparr>constructed := [demo_args ''r4''], failure := Some ValueError\<rparr>"
proof -
  let ?files = "(''data/r4-All-Data.tsv'', ''data/r4-Fixation-Data.tsv'', None, None,
                 ''data/r4.seg'')"
  have 1: "current_rps (None :: (string \<rightharpoonup> unit) option) ''p4'' = Inr None"
    by (simp add: current_rps_def)
  have 2: "participant_files demo_env ''data'' ''r4'' = Inr ?files"
    by (simp add: participant_files_def demo_env_def)
  have 3: "path_exists demo_env (fst ?files)" by (simp add: demo_env_def)
  have 4: "BasicParticipant_init demo_env
             (participant_args ''r4'' ?files 1 None None True False None) = Inl ValueError"
    by (simp add: BasicParticipant_init_def make_recording_def participant_args_def
        demo_env_def)
  from constructor_failure_aborts_batch [OF 1 2 3 4, of empty_batch "[(''r1'', ''p1'', 1)]"]
  show ?thesis by (simp add: demo_args_def empty_batch_def)
qed

text \<open>
  The parser fails on the sample file of \<^verbatim>\<open>r4\<close>; the batch of \<^verbatim>\<open>r4\<close> and
  \<^verbatim>\<open>r1\<close> ends with that exception, an empty log and no construction of
  \<^verbatim>\<open>r1\<close>.
\<close>

theorem constructor_failure_counterexample:
  "failure (read_participants_Basic demo_env ''data'' [''r4'', ''r1''] [''p4'', ''p1'']
              None None None True False None) = Some ValueError
   \<and> participants (read_participants_Basic demo_env ''data'' [''r4'', ''r1'']
              [''p4'', ''p1''] None None None True False None) = []
   \<and> log_file (read_participants_Basic demo_env ''data'' [''r4'', ''r1'']
              [''p4'', ''p1''] None None None True False None) = []
   \<and> map pid (constructed (read_participants_Basic demo_env ''data'' [''r4'', ''r1'']
              [''p4'', ''p1''] None None None True False None)) = [''r4'']"
  by (simp add: demo_defs participant_args_def)

subsection \<open>A missing sample file\<close>

text \<open>
  Claim C8, as the code has it. When the loop reaches a recording whose sample file does
  not exist (no earlier recording having raised, the
  tracker type being one of the three known ones, and the rest pupil sizes of the
  participant, if a table of them was read, being in the table), it writes the line
  \<^verbatim>\<open>Error reading participant files for: <pid> FILE NOT FOUND\<close> to the log,
  issues the warning, constructs nothing and goes on with the remaining recordings.
\<close>

theorem missing_file_is_logged_and_skipped:
  assumes "failure b = None"
    and "current_rps rps p = Inr currps"
    and "participant_files env datadir rec = Inr files"
    and "\<not> path_exists env (fst files)"
  shows "batch_loop env datadir prune aoi rvs apl rps b ((rec, p, offset) # rest)
         = batch_loop env datadir prune aoi rvs apl rps
             (b\<lparr>log_file := log_file b
                   @ [missing_file_message p @ '' FILE NOT FOUND'' @ [CHR 0x0A]],
                 warnings := warnings b @ [missing_file_message p]\<rparr>)
             rest"
  using assms by (simp add: process_recording_def Let_def)

theorem missing_file_is_logged_and_skipped_witness:
  "log_file (read_participants_Basic demo_env ''data'' [''r3'', ''r1''] [''p3'', ''p1'']
               None None None True False None)
     = [''Error reading participant files for: p3 FILE NOT FOUND'' @ [CHR 0x0A]]
   \<and> map pid (constructed (read_participants_Basic demo_env ''data'' [''r3'', ''r1'']
               [''p3'', ''p1''] None None None True False None)) = [''r1'']
   \<and> length (participants (read_participants_Basic demo_env ''data'' [''r3'', ''r1'']
               [''p3'', ''p1''] None None None True False None)) = 1
   \<and> failure (read_participants_Basic demo_env ''data'' [''r3'', ''r1'']
               [''p3'', ''p1''] None None None True False None) = None"
proof -
  let ?files = "(''data/r3-All-Data.tsv'', ''data/r3-Fixation-Data.tsv'', None, None,
                 ''data/r3.seg'')"
  have 0: "failure (empty_batch :: (string \<times> segment list, unit) batch) = None"
    by (simp add: empty_batch_def)
  have 1: "current_rps (None :: (string \<rightharpoonup> unit) option) ''p3'' = Inr None"
    by (simp add: current_rps_def)
  have 2: "participant_files demo_env ''data'' ''r3'' = Inr ?files"
    by (simp add: participant_files_def demo_env_def)
  have 3: "\<not> path_exists demo_env (fst ?files)" by (simp add: demo_env_def)
  have "read_participants_Basic demo_env ''data'' [''r3'', ''r1''] [''p3'', ''p1'']
               None None None True False None
        = batch_loop demo_env ''data'' None None True False None empty_batch
            [(''r3'', ''p3'', 1), (''r1'', ''p1'', 1)]"
    by (simp add: read_participants_Basic_def demo_env_def)
  also have "\<dots> = batch_loop demo_env ''data'' None None True False None
             (empty_batch\<lparr>log_file :=
                   [missing_file_message ''p3'' @ '' FILE NOT FOUND'' @ [CHR 0x0A]],
                 warnings := [missing_file_message ''p3'']\<rparr>)
             [(''r1'', ''p1'', 1)]"
    by (simp only: missing_file_is_logged_and_skipped [OF 0 1 2 3])
      (simp add: empty_batch_def)
  finally show ?thesis
    by (simp add: demo_defs participant_args_def)
qed

text \<open>
  Two batches in which the sample file of \<^verbatim>\<open>r3\<close> is missing and is not logged. In
  the first a table of rest pupil sizes is used that does not know \<^verbatim>\<open>p3\<close>:
  \<^verbatim>\<open>rpsdata[pid]\<close> raises before the existence test. In the second the parser has
  failed on \<^verbatim>\<open>r4\<close> before the loop comes to \<^verbatim>\<open>r3\<close>.
\<close>

theorem missing_file_not_logged_counterexample:
  "failure (read_participants_Basic demo_env_rps ''data'' [''r3''] [''p3''] None None None
              True False (Some ''rps.tsv'')) = Some KeyError
   \<and> log_file (read_participants_Basic demo_env_rps ''data'' [''r3''] [''p3''] None None
              None True False (Some ''rps.tsv'')) = []
   \<and> failure (read_participants_Basic demo_env ''data'' [''r4'', ''r3''] [''p4'', ''p3'']
              None None None True False None) = Some ValueError
   \<and> log_file (read_participants_Basic demo_env ''data'' [''r4'', ''r3''] [''p4'', ''p3'']
              None None None True False None) = []"
  by (simp add: demo_defs demo_env_rps_def participant_args_def)

end
